theory Spec2Isabelle
  imports Main "HOL-Library.Word" "HOL-Library.Multiset"
begin

section \<open>Announcements endpoints of the High School Management System API\<close>

text \<open>
  A shallow embedding of \<^verbatim>\<open>src/backend/routers/announcements.py\<close>. Every endpoint is a
  function of the database state and of what the request reads from its environment (the
  clock, the identifier the driver generates for an insert). An endpoint that writes returns
  its response together with the database state it leaves behind; a raised exception is the
  \<open>Inl\<close> branch of the response.
\<close>

subsection \<open>Values, documents and errors\<close>

text \<open>The 12 bytes of a BSON ObjectId.\<close>

type_synonym oid = "96 word"

text \<open>
  The values a field of a document holds here: null, a string, an ObjectId, a boolean.
  A document is a Python \<^verbatim>\<open>Dict[str, Any]\<close>: a finite map from field names to values.
\<close>

datatype val = VNull | VStr string | VOid oid | VBool bool

type_synonym document = "string \<rightharpoonup> val"

text \<open>
  \<^verbatim>\<open>HTTPException(status_code, detail)\<close> as raised by the endpoints. The two other
  exceptions are raised below the endpoints and reach the client as a server error: the
  driver's duplicate-key error of an insert, and the framework's refusal of a response that
  is not a dictionary.
\<close>

datatype error =
    HTTPException nat string
  | DuplicateKeyError
  | ResponseValidationError

definition Unauthorized :: error where
  "Unauthorized = HTTPException 401 ''Authentication required''"

definition InvalidId :: error where
  "InvalidId = HTTPException 400 ''Invalid announcement ID''"

definition NotFound :: error where
  "NotFound = HTTPException 404 ''Announcement not found''"

definition InvalidDate :: error where
  "InvalidDate = HTTPException 400 ''Invalid date format. Use YYYY-MM-DD''"

definition EmptyMessage :: error where
  "EmptyMessage = HTTPException 400 ''Message cannot be empty''"

definition UpdateFailed :: error where
  "UpdateFailed = HTTPException 500 ''Failed to update announcement''"

subsection \<open>Strings: trimming and byte order\<close>

text \<open>
  \<^verbatim>\<open>str.strip()\<close> removes leading and trailing whitespace. A string is a sequence of
  bytes here, so whitespace is the ASCII whitespace of \<^verbatim>\<open>str.isspace\<close>: tab, line feed,
  vertical tab, form feed, carriage return, the four separators 28 to 31, and space.
\<close>

definition is_space :: "char \<Rightarrow> bool" where
  "is_space c = (let n = (of_char c :: nat) in (9 \<le> n \<and> n \<le> 13) \<or> (28 \<le> n \<and> n \<le> 32))"

definition strip :: "string \<Rightarrow> string" where
  "strip s = rev (dropWhile is_space (rev (dropWhile is_space s)))"

text \<open>
  The store compares strings byte by byte (simple binary collation): the first differing
  byte decides, and a proper prefix is smaller.
\<close>

fun str_le :: "string \<Rightarrow> string \<Rightarrow> bool" where
  "str_le [] ys = True"
| "str_le (x # xs) [] = False"
| "str_le (x # xs) (y # ys) =
     (if x = y then str_le xs ys else (of_char x :: nat) < of_char y)"

subsection \<open>ObjectId: parsing and printing\<close>

text \<open>
  \<^verbatim>\<open>ObjectId(s)\<close> of the bson library accepts a string of exactly 24 hexadecimal digits
  (either case) and raises \<^verbatim>\<open>InvalidId\<close> otherwise; \<^verbatim>\<open>str(oid)\<close> prints the 12 bytes
  as 24 lower-case hexadecimal digits.
\<close>

definition hex_val :: "char \<Rightarrow> nat option" where
  "hex_val c = (let n = (of_char c :: nat) in
     if 48 \<le> n \<and> n \<le> 57 then Some (n - 48)
     else if 97 \<le> n \<and> n \<le> 102 then Some (n - 87)
     else if 65 \<le> n \<and> n \<le> 70 then Some (n - 55)
     else None)"

fun fromhex :: "string \<Rightarrow> nat \<Rightarrow> nat option" where
  "fromhex [] acc = Some acc"
| "fromhex (c # cs) acc =
     (case hex_val c of None \<Rightarrow> None | Some d \<Rightarrow> fromhex cs (16 * acc + d))"

definition ObjectId :: "string \<Rightarrow> oid option" where
  "ObjectId s = (if length s = 24 then map_option of_nat (fromhex s 0) else None)"

definition hex_digit :: "nat \<Rightarrow> char" where
  "hex_digit n = ''0123456789abcdef'' ! n"

primrec to_hex :: "nat \<Rightarrow> nat \<Rightarrow> string" where
  "to_hex 0 x = []"
| "to_hex (Suc n) x = to_hex n (x div 16) @ [hex_digit (x mod 16)]"

definition str_oid :: "oid \<Rightarrow> string" where
  "str_oid w = to_hex 24 (unat w)"

text \<open>\<^verbatim>\<open>str(v)\<close> of a value, as \<^verbatim>\<open>serialize_announcement\<close> applies it to \<^verbatim>\<open>_id\<close>.\<close>

fun str_val :: "val \<Rightarrow> string" where
  "str_val VNull = ''None''"
| "str_val (VStr s) = s"
| "str_val (VOid w) = str_oid w"
| "str_val (VBool b) = (if b then ''True'' else ''False'')"

subsection \<open>The clock: \<^verbatim>\<open>datetime.now()\<close>, \<^verbatim>\<open>strftime\<close>, \<^verbatim>\<open>isoformat\<close>, \<^verbatim>\<open>strptime\<close>\<close>

text \<open>
  A naive \<^verbatim>\<open>datetime\<close>. Python keeps the year in 1..9999, the month in 1..12, the day in
  1..31, the hour below 24, minute and second below 60 and the microsecond below 1000000;
  the printers below write each field with its fixed number of digits.
\<close>

record datetime =
  year :: nat
  month :: nat
  day :: nat
  hour :: nat
  minute :: nat
  second :: nat
  microsecond :: nat

definition digit_char :: "nat \<Rightarrow> char" where
  "digit_char n = ''0123456789'' ! n"

definition dec2 :: "nat \<Rightarrow> string" where
  "dec2 n = [digit_char (n div 10 mod 10), digit_char (n mod 10)]"

definition dec4 :: "nat \<Rightarrow> string" where
  "dec4 n = [digit_char (n div 1000 mod 10), digit_char (n div 100 mod 10),
             digit_char (n div 10 mod 10), digit_char (n mod 10)]"

definition dec6 :: "nat \<Rightarrow> string" where
  "dec6 n = [digit_char (n div 100000 mod 10), digit_char (n div 10000 mod 10),
             digit_char (n div 1000 mod 10), digit_char (n div 100 mod 10),
             digit_char (n div 10 mod 10), digit_char (n mod 10)]"

text \<open>\<^verbatim>\<open>dt.strftime("%Y-%m-%d")\<close>\<close>

definition strftime_ymd :: "datetime \<Rightarrow> string" where
  "strftime_ymd dt = dec4 (year dt) @ ''-'' @ dec2 (month dt) @ ''-'' @ dec2 (day dt)"

text \<open>\<^verbatim>\<open>dt.isoformat()\<close>: the microseconds are printed only when they are not zero.\<close>

definition isoformat :: "datetime \<Rightarrow> string" where
  "isoformat dt =
     strftime_ymd dt @ ''T'' @ dec2 (hour dt) @ '':'' @ dec2 (minute dt) @ '':'' @ dec2 (second dt)
       @ (if microsecond dt = 0 then [] else ''.'' @ dec6 (microsecond dt))"

text \<open>
  \<^verbatim>\<open>datetime.strptime(s, "%Y-%m-%d")\<close> raises \<^verbatim>\<open>ValueError\<close> unless the whole of \<open>s\<close>
  is four digits, a dash, a month, a dash and a day, and the three numbers are a date of
  the calendar. The month is \<^verbatim>\<open>1[0-2]|0[1-9]|[1-9]\<close>, the day is
  \<^verbatim>\<open>3[01]|[12]\d|0[1-9]|[1-9]| [1-9]\<close>: a leading zero is optional.
\<close>

definition is_digit :: "char \<Rightarrow> bool" where
  "is_digit c = (let n = (of_char c :: nat) in 48 \<le> n \<and> n \<le> 57)"

definition digit_val :: "char \<Rightarrow> nat" where
  "digit_val c = of_char c - 48"

fun month_token :: "string \<Rightarrow> nat option" where
  "month_token [a] = (if is_digit a \<and> a \<noteq> CHR ''0'' then Some (digit_val a) else None)"
| "month_token [a, b] =
     (if a = CHR ''1'' \<and> (b = CHR ''0'' \<or> b = CHR ''1'' \<or> b = CHR ''2'') then Some (10 + digit_val b)
      else if a = CHR ''0'' \<and> is_digit b \<and> b \<noteq> CHR ''0'' then Some (digit_val b)
      else None)"
| "month_token s = None"

fun day_token :: "string \<Rightarrow> nat option" where
  "day_token [a] = (if is_digit a \<and> a \<noteq> CHR ''0'' then Some (digit_val a) else None)"
| "day_token [a, b] =
     (if a = CHR ''3'' \<and> (b = CHR ''0'' \<or> b = CHR ''1'') then Some (30 + digit_val b)
      else if (a = CHR ''1'' \<or> a = CHR ''2'') \<and> is_digit b then Some (10 * digit_val a + digit_val b)
      else if (a = CHR ''0'' \<or> a = CHR '' '') \<and> is_digit b \<and> b \<noteq> CHR ''0'' then Some (digit_val b)
      else None)"
| "day_token s = None"

definition is_leap :: "nat \<Rightarrow> bool" where
  "is_leap y = (y mod 4 = 0 \<and> (y mod 100 \<noteq> 0 \<or> y mod 400 = 0))"

definition days_in_month :: "nat \<Rightarrow> nat \<Rightarrow> nat" where
  "days_in_month y m =
     (if m = 2 then (if is_leap y then 29 else 28)
      else if m = 4 \<or> m = 6 \<or> m = 9 \<or> m = 11 then 30 else 31)"

definition strptime_ymd :: "string \<Rightarrow> (nat \<times> nat \<times> nat) option" where
  "strptime_ymd s =
     (let ys = take 4 s; rest = drop 5 s;
          ms = takeWhile (\<lambda>c. c \<noteq> CHR ''-'') rest;
          ds = drop (Suc (length ms)) rest
      in if length ys = 4 \<and> list_all is_digit ys \<and> take 1 (drop 4 s) = ''-''
            \<and> take 1 (drop (length ms) rest) = ''-''
         then (case (month_token ms, day_token ds) of
                 (Some m, Some d) \<Rightarrow>
                   (let y = foldl (\<lambda>acc c. 10 * acc + digit_val c) 0 ys
                    in if 1 \<le> y \<and> d \<le> days_in_month y m then Some (y, m, d) else None)
               | _ \<Rightarrow> None)
         else None)"

subsection \<open>The two collections\<close>

text \<open>
  Modelled from the spec: the \<^verbatim>\<open>database\<close> module, which provides
  \<^verbatim>\<open>announcements_collection\<close> and \<^verbatim>\<open>teachers_collection\<close>, is not part of the
  sources. The spec describes the two stores as collections of documents keyed by a unique
  identifier, with \<^verbatim>\<open>insert\<close>, \<^verbatim>\<open>find_by_id\<close>, \<^verbatim>\<open>find_matching(filter, sort)\<close>,
  \<^verbatim>\<open>replace_fields(id, fields)\<close> and \<^verbatim>\<open>delete_by_id(id)\<close>; the router calls them by
  their driver names. A collection is the list of its documents in insertion order, each
  entry the \<^verbatim>\<open>_id\<close> of the document and its other fields.
\<close>

type_synonym collection = "(val \<times> document) list"

record db =
  announcements_collection :: collection
  teachers_collection :: collection

text \<open>The document as the driver hands it out: the fields together with \<^verbatim>\<open>_id\<close>.\<close>

definition doc_of :: "val \<times> document \<Rightarrow> document" where
  "doc_of e = (snd e)(''_id'' \<mapsto> fst e)"

text \<open>\<^verbatim>\<open>find_one({"_id": k})\<close>: the first document with this identifier, or \<^verbatim>\<open>None\<close>.\<close>

fun find_one :: "collection \<Rightarrow> val \<Rightarrow> document option" where
  "find_one [] k = None"
| "find_one (e # rest) k = (if fst e = k then Some (doc_of e) else find_one rest k)"

text \<open>
  \<^verbatim>\<open>insert_one(doc)\<close> with the identifier \<open>k\<close> the driver generated for it. The index on
  \<^verbatim>\<open>_id\<close> is unique: an identifier already in the collection is a duplicate-key error
  (\<open>None\<close>) and nothing is stored.
\<close>

definition insert_one :: "collection \<Rightarrow> val \<Rightarrow> document \<Rightarrow> collection option" where
  "insert_one c k d = (if find_one c k = None then Some (c @ [(k, d)]) else None)"

text \<open>The \<^verbatim>\<open>$set\<close> operator: each listed field is overwritten, every other field is kept.\<close>

fun set_fields :: "document \<Rightarrow> (string \<times> val) list \<Rightarrow> document" where
  "set_fields d [] = d"
| "set_fields d (kv # rest) = set_fields (d(fst kv \<mapsto> snd kv)) rest"

text \<open>
  \<^verbatim>\<open>update_one({"_id": k}, {"$set": upd})\<close>: the first document with this identifier is
  updated. The result is \<^verbatim>\<open>matched_count\<close>, \<^verbatim>\<open>modified_count\<close> (zero when every listed
  field already had its new value) and the collection afterwards.
\<close>

fun update_one :: "collection \<Rightarrow> val \<Rightarrow> (string \<times> val) list \<Rightarrow> nat \<times> nat \<times> collection" where
  "update_one [] k upd = (0, 0, [])"
| "update_one (e # rest) k upd =
     (if fst e = k
      then (1, (if list_all (\<lambda>kv. snd e (fst kv) = Some (snd kv)) upd then 0 else 1),
            (fst e, set_fields (snd e) upd) # rest)
      else (case update_one rest k upd of (m, n, rest') \<Rightarrow> (m, n, e # rest')))"

text \<open>\<^verbatim>\<open>delete_one({"_id": k})\<close>: \<^verbatim>\<open>deleted_count\<close> and the collection afterwards.\<close>

fun delete_one :: "collection \<Rightarrow> val \<Rightarrow> nat \<times> collection" where
  "delete_one [] k = (0, [])"
| "delete_one (e # rest) k =
     (if fst e = k then (1, rest)
      else (case delete_one rest k of (n, rest') \<Rightarrow> (n, e # rest')))"

subsection \<open>Queries and sorting\<close>











subsection \<open>The endpoints\<close>

text \<open>\<^verbatim>\<open>serialize_announcement\<close>: \<^verbatim>\<open>_id\<close> is replaced by \<^verbatim>\<open>id\<close>, its string.\<close>

definition serialize_announcement :: "document \<Rightarrow> document" where
  "serialize_announcement announcement =
     (case announcement ''_id'' of
        None \<Rightarrow> announcement
      | Some i \<Rightarrow> (announcement(''id'' \<mapsto> VStr (str_val i)))(''_id'' := None))"



definition get_announcement :: "db \<Rightarrow> string \<Rightarrow> error + document" where
  "get_announcement st announcement_id =
     (case ObjectId announcement_id of
        None \<Rightarrow> Inl InvalidId
      | Some i \<Rightarrow>
          (case find_one (announcements_collection st) (VOid i) of
             None \<Rightarrow> Inl NotFound
           | Some announcement \<Rightarrow> Inr (serialize_announcement announcement)))"

text \<open>
  The date validation of \<^verbatim>\<open>create_announcement\<close> and \<^verbatim>\<open>update_announcement\<close>:
  \<^verbatim>\<open>expiration_date\<close> is parsed always, \<^verbatim>\<open>start_date\<close> only when it is truthy (neither
  \<^verbatim>\<open>None\<close> nor the empty string).
\<close>

definition dates_valid :: "string \<Rightarrow> string option \<Rightarrow> bool" where
  "dates_valid expiration_date start_date =
     (strptime_ymd expiration_date \<noteq> None \<and>
      (case start_date of
         None \<Rightarrow> True
       | Some s \<Rightarrow> (if s = [] then True else strptime_ymd s \<noteq> None)))"

text \<open>An \<^verbatim>\<open>Optional[str]\<close> as a value of a document.\<close>

definition opt_str :: "string option \<Rightarrow> val" where
  "opt_str s = (case s of None \<Rightarrow> VNull | Some t \<Rightarrow> VStr t)"

definition create_announcement ::
  "db \<Rightarrow> datetime \<Rightarrow> oid \<Rightarrow> string \<Rightarrow> string \<Rightarrow> string option \<Rightarrow> string
     \<Rightarrow> (error + document) \<times> db" where
  "create_announcement st now new_id message expiration_date start_date teacher_username =
     (case find_one (teachers_collection st) (VStr teacher_username) of
        None \<Rightarrow> (Inl Unauthorized, st)
      | Some teacher \<Rightarrow>
          if \<not> dates_valid expiration_date start_date then (Inl InvalidDate, st)
          else if message = [] \<or> strip message = [] then (Inl EmptyMessage, st)
          else
            (let announcement =
                   [''message'' \<mapsto> VStr (strip message),
                    ''start_date'' \<mapsto> opt_str start_date,
                    ''expiration_date'' \<mapsto> VStr expiration_date,
                    ''created_by'' \<mapsto> VStr teacher_username,
                    ''created_at'' \<mapsto> VStr (isoformat now)]
             in case insert_one (announcements_collection st) (VOid new_id) announcement of
                  None \<Rightarrow> (Inl DuplicateKeyError, st)
                | Some coll \<Rightarrow>
                    (Inr (((announcement(''_id'' \<mapsto> VOid new_id))
                             (''id'' \<mapsto> VStr (str_oid new_id)))(''_id'' := None)),
                     st\<lparr>announcements_collection := coll\<rparr>)))"

text \<open>
  \<^verbatim>\<open>update_announcement\<close>. The write goes through \<^verbatim>\<open>update_one\<close> of the collection;
  the body takes that operation as its first argument, so that the defensive check of the
  counts it reports can be stated for any answer of the store.
\<close>

definition update_announcement_with ::
  "(collection \<Rightarrow> val \<Rightarrow> (string \<times> val) list \<Rightarrow> nat \<times> nat \<times> collection)
     \<Rightarrow> db \<Rightarrow> datetime \<Rightarrow> string \<Rightarrow> string \<Rightarrow> string \<Rightarrow> string option \<Rightarrow> string
     \<Rightarrow> (error + document) \<times> db" where
  "update_announcement_with store_update_one st now announcement_id message expiration_date
       start_date teacher_username =
     (case find_one (teachers_collection st) (VStr teacher_username) of
        None \<Rightarrow> (Inl Unauthorized, st)
      | Some teacher \<Rightarrow>
          (case ObjectId announcement_id of
             None \<Rightarrow> (Inl InvalidId, st)
           | Some i \<Rightarrow>
               (case find_one (announcements_collection st) (VOid i) of
                  None \<Rightarrow> (Inl NotFound, st)
                | Some existing \<Rightarrow>
                    if \<not> dates_valid expiration_date start_date then (Inl InvalidDate, st)
                    else if message = [] \<or> strip message = [] then (Inl EmptyMessage, st)
                    else
                      (let update_data =
                             [(''message'', VStr (strip message)),
                              (''start_date'', opt_str start_date),
                              (''expiration_date'', VStr expiration_date),
                              (''updated_by'', VStr teacher_username),
                              (''updated_at'', VStr (isoformat now))]
                       in case store_update_one (announcements_collection st) (VOid i) update_data of
                            (matched_count, modified_count, coll) \<Rightarrow>
                              if modified_count = 0 \<and> matched_count = 0
                              then (Inl UpdateFailed, st\<lparr>announcements_collection := coll\<rparr>)
                              else
                                (case find_one coll (VOid i) of
                                   None \<Rightarrow>
                                     (Inl ResponseValidationError,
                                      st\<lparr>announcements_collection := coll\<rparr>)
                                 | Some updated \<Rightarrow>
                                     (Inr (serialize_announcement updated),
                                      st\<lparr>announcements_collection := coll\<rparr>))))))"

definition update_announcement ::
  "db \<Rightarrow> datetime \<Rightarrow> string \<Rightarrow> string \<Rightarrow> string \<Rightarrow> string option \<Rightarrow> string
     \<Rightarrow> (error + document) \<times> db" where
  "update_announcement = update_announcement_with update_one"

definition delete_announcement :: "db \<Rightarrow> string \<Rightarrow> string \<Rightarrow> (error + document) \<times> db" where
  "delete_announcement st announcement_id teacher_username =
     (case find_one (teachers_collection st) (VStr teacher_username) of
        None \<Rightarrow> (Inl Unauthorized, st)
      | Some teacher \<Rightarrow>
          (case ObjectId announcement_id of
             None \<Rightarrow> (Inl InvalidId, st)
           | Some i \<Rightarrow>
               (case delete_one (announcements_collection st) (VOid i) of
                  (deleted_count, coll) \<Rightarrow>
                    if deleted_count = 0 then (Inl NotFound, st\<lparr>announcements_collection := coll\<rparr>)
                    else (Inr [''message'' \<mapsto> VStr ''Announcement deleted successfully''],
                          st\<lparr>announcements_collection := coll\<rparr>))))"

subsection \<open>An example database\<close>

text \<open>
  One teacher and three announcements: one without a start date that expires in 2099, one
  that expired in 2020, and one running through 2024. The clock reads 15 June 2024, 10:30.
\<close>

definition example_teachers :: collection where
  "example_teachers = [(VStr ''mrodriguez'', [''display_name'' \<mapsto> VStr ''Ms. Rodriguez''])]"

definition example_announcements :: collection where
  "example_announcements =
     [(VOid 1, [''message'' \<mapsto> VStr ''Exam Friday'',
                ''start_date'' \<mapsto> VNull,
                ''expiration_date'' \<mapsto> VStr ''2099-01-01'',
                ''created_by'' \<mapsto> VStr ''mrodriguez'',
                ''created_at'' \<mapsto> VStr ''2024-01-10T08:00:00'']),
      (VOid 2, [''message'' \<mapsto> VStr ''Old news'',
                ''start_date'' \<mapsto> VStr ''2020-01-01'',
                ''expiration_date'' \<mapsto> VStr ''2020-12-31'',
                ''created_by'' \<mapsto> VStr ''mrodriguez'',
                ''created_at'' \<mapsto> VStr ''2020-01-01T08:00:00'']),
      (VOid 3, [''message'' \<mapsto> VStr ''Science fair'',
                ''start_date'' \<mapsto> VStr ''2024-03-01'',
                ''expiration_date'' \<mapsto> VStr ''2024-12-31'',
                ''created_by'' \<mapsto> VStr ''mrodriguez'',
                ''created_at'' \<mapsto> VStr ''2024-02-01T09:30:00''])]"

definition example_db :: db where
  "example_db =
     \<lparr>announcements_collection = example_announcements, teachers_collection = example_teachers\<rparr>"

definition example_now :: datetime where
  "example_now =
     \<lparr>year = 2024, month = 6, day = 15, hour = 10, minute = 30, second = 0, microsecond = 0\<rparr>"

text \<open>
  The record and the database after the teacher posts \<^verbatim>\<open>"  Pep rally  "\<close>, expiring on
  1 September 2024, without a start date, when the driver generates the identifier 4.
\<close>

definition example_record :: document where
  "example_record =
     [''message'' \<mapsto> VStr ''Pep rally'',
      ''start_date'' \<mapsto> VNull,
      ''expiration_date'' \<mapsto> VStr ''2024-09-01'',
      ''created_by'' \<mapsto> VStr ''mrodriguez'',
      ''created_at'' \<mapsto> VStr ''2024-06-15T10:30:00'',
      ''id'' \<mapsto> VStr ''000000000000000000000004'']"

definition example_db_created :: db where
  "example_db_created =
     example_db\<lparr>announcements_collection := announcements_collection example_db @
       [(VOid 4,
         [''message'' \<mapsto> VStr ''Pep rally'',
          ''start_date'' \<mapsto> VNull,
          ''expiration_date'' \<mapsto> VStr ''2024-09-01'',
          ''created_by'' \<mapsto> VStr ''mrodriguez'',
          ''created_at'' \<mapsto> VStr ''2024-06-15T10:30:00''])]\<rparr>"

text \<open>
  The first announcement and the database after the teacher replaces its message by
  \<^verbatim>\<open>" Exam on Monday "\<close>, its start date by 1 June 2024 and its expiration date by
  1 February 2099.
\<close>

definition example_updated :: document where
  "example_updated =
     [''message'' \<mapsto> VStr ''Exam on Monday'',
      ''start_date'' \<mapsto> VStr ''2024-06-01'',
      ''expiration_date'' \<mapsto> VStr ''2099-02-01'',
      ''created_by'' \<mapsto> VStr ''mrodriguez'',
      ''created_at'' \<mapsto> VStr ''2024-01-10T08:00:00'',
      ''updated_by'' \<mapsto> VStr ''mrodriguez'',
      ''updated_at'' \<mapsto> VStr ''2024-06-15T10:30:00'']"

definition example_db_updated :: db where
  "example_db_updated =
     example_db\<lparr>announcements_collection := (VOid 1, example_updated) # tl example_announcements\<rparr>"

subsection \<open>Notions of the specification\<close>




text \<open>The unique index on \<^verbatim>\<open>_id\<close>: no two documents of a collection share an identifier.\<close>

definition unique_ids :: "collection \<Rightarrow> bool" where
  "unique_ids c = distinct (map fst c)"

text \<open>
  A message is blank when it is empty or consists of whitespace only; a stored document is
  in order when its \<^verbatim>\<open>message\<close> is a string that is not blank.
\<close>

definition blank :: "string \<Rightarrow> bool" where
  "blank m = list_all is_space m"


section \<open>Properties\<close>

subsection \<open>The order of the store is a total preorder\<close>


lemma str_le_refl: "str_le a a"
  by (induction a) simp_all





subsection \<open>Sorting\<close>






subsection \<open>Printing and parsing an ObjectId\<close>

lemma hex_val_hex_digit_list:
  "list_all (\<lambda>n. hex_val (hex_digit n) = Some n)
     [0, 1, 2, 3, 4, 5, 6, 7, 8, 9, 10, 11, 12, 13, 14, 15]"
  by (simp add: hex_digit_def hex_val_def)

lemma hex_val_hex_digit:
  assumes "n < 16"
  shows "hex_val (hex_digit n) = Some n"
proof -
  from assms have "n \<in> set [0, 1, 2, 3, 4, 5, 6, 7, 8, 9, 10, 11, 12, 13, 14, 15]"
    by (simp; arith)
  with hex_val_hex_digit_list show ?thesis
    unfolding list_all_iff by blast
qed

lemma length_to_hex: "length (to_hex n x) = n"
  by (induction n arbitrary: x) auto

lemma fromhex_append_to_hex:
  "fromhex (to_hex n x @ s) acc = fromhex s (acc * 16 ^ n + x mod 16 ^ n)"
proof (induction n arbitrary: x s)
  case 0
  then show ?case by simp
next
  case (Suc n)
  have eq: "16 * (acc * 16 ^ n + x div 16 mod 16 ^ n) + x mod 16
            = acc * 16 ^ Suc n + x mod 16 ^ Suc n"
    by (simp add: mod_mult2_eq algebra_simps)
  have "fromhex (to_hex (Suc n) x @ s) acc =
        fromhex (hex_digit (x mod 16) # s) (acc * 16 ^ n + x div 16 mod 16 ^ n)"
    using Suc [of "x div 16" "hex_digit (x mod 16) # s"] by simp
  also have "\<dots> = fromhex s (16 * (acc * 16 ^ n + x div 16 mod 16 ^ n) + x mod 16)"
    by (simp add: hex_val_hex_digit)
  finally show ?case
    unfolding eq .
qed

lemma ObjectId_str_oid: "ObjectId (str_oid w) = Some w"
proof -
  have "unat w < 2 ^ 96"
    using unsigned_less [of w, where ?'a = nat] by simp
  then have "unat w mod 16 ^ 24 = unat w"
    by simp
  then have "fromhex (to_hex 24 (unat w)) 0 = Some (unat w)"
    using fromhex_append_to_hex [of 24 "unat w" "[]" 0] by simp
  then show ?thesis
    by (simp add: ObjectId_def str_oid_def length_to_hex)
qed

lemma to_hex_numeral:
  "to_hex (numeral k) x = to_hex (pred_numeral k) (x div 16) @ [hex_digit (x mod 16)]"
  using to_hex.simps(2) [of "pred_numeral k" x] by (simp only: numeral_eq_Suc [symmetric])

subsection \<open>The operations of a collection\<close>

lemma find_one_None_iff: "find_one c k = None \<longleftrightarrow> k \<notin> fst ` set c"
  by (induction c) auto

lemma find_one_id: "find_one c k = Some d \<Longrightarrow> d ''_id'' = Some k"
  by (induction c) (auto simp: doc_of_def split: if_splits)

lemma find_one_append:
  "find_one (c @ [e]) k =
     (case find_one c k of
        Some d \<Rightarrow> Some d
      | None \<Rightarrow> if fst e = k then Some (doc_of e) else None)"
  by (induction c) auto

lemma set_fields_id:
  "(set_fields (d(a \<mapsto> v)) upd)(a \<mapsto> w) = (set_fields d upd)(a \<mapsto> w)"
proof (induction upd arbitrary: d)
  case Nil
  show ?case by (auto simp: fun_eq_iff)
next
  case (Cons kv upd)
  show ?case
  proof (cases "fst kv = a")
    case True
    then have "(d(a \<mapsto> v))(fst kv \<mapsto> snd kv) = d(fst kv \<mapsto> snd kv)"
      by simp
    then show ?thesis
      by (simp only: set_fields.simps)
  next
    case False
    then have "(d(a \<mapsto> v))(fst kv \<mapsto> snd kv) = (d(fst kv \<mapsto> snd kv))(a \<mapsto> v)"
      by (simp add: fun_upd_twist)
    then show ?thesis
      using Cons [of "d(fst kv \<mapsto> snd kv)"] by (simp only: set_fields.simps)
  qed
qed

lemma update_one_unmatched: "find_one c k = None \<Longrightarrow> update_one c k upd = (0, 0, c)"
  by (induction c) (auto split: if_splits)

lemma update_one_matched:
  "find_one c k = Some d \<Longrightarrow> fst (update_one c k upd) = 1"
  by (induction c) (auto split: if_splits prod.splits)

lemma find_one_update_one:
  "find_one (snd (snd (update_one c k upd))) k' =
     (if k' = k
      then (case find_one c k of
              None \<Rightarrow> None
            | Some d \<Rightarrow> Some ((set_fields d upd)(''_id'' \<mapsto> k)))
      else find_one c k')"
  by (induction c) (auto simp: doc_of_def set_fields_id split: prod.splits)

lemma map_fst_update_one: "map fst (snd (snd (update_one c k upd))) = map fst c"
  by (induction c) (auto split: prod.splits)

lemma delete_one_unmatched: "find_one c k = None \<Longrightarrow> delete_one c k = (0, c)"
  by (induction c) (auto split: if_splits)

lemma delete_one_matched: "find_one c k = Some d \<Longrightarrow> fst (delete_one c k) = 1"
  by (induction c) (auto split: if_splits prod.splits)

lemma find_one_delete_other:
  "k' \<noteq> k \<Longrightarrow> find_one (snd (delete_one c k)) k' = find_one c k'"
  by (induction c) (auto split: prod.splits)

lemma set_delete_one: "set (snd (delete_one c k)) \<subseteq> set c"
  by (induction c) (auto split: prod.splits)

lemma find_one_delete_same:
  "unique_ids c \<Longrightarrow> find_one (snd (delete_one c k)) k = None"
proof (induction c)
  case Nil
  show ?case by simp
next
  case (Cons e c)
  show ?case
  proof (cases "fst e = k")
    case True
    with Cons.prems have "k \<notin> fst ` set c"
      by (auto simp: unique_ids_def)
    with True show ?thesis
      by (simp add: find_one_None_iff)
  next
    case False
    with Cons show ?thesis
      by (auto simp: unique_ids_def split: prod.splits)
  qed
qed

lemma unique_ids_delete_one: "unique_ids c \<Longrightarrow> unique_ids (snd (delete_one c k))"
proof (induction c)
  case Nil
  show ?case by (simp add: unique_ids_def)
next
  case (Cons e c)
  then have "fst e \<notin> fst ` set (snd (delete_one c k))"
    using set_delete_one [of c k] by (auto simp: unique_ids_def)
  with Cons show ?case
    by (auto simp: unique_ids_def split: prod.splits)
qed

lemma unique_ids_update_one: "unique_ids (snd (snd (update_one c k upd))) = unique_ids c"
  by (simp add: unique_ids_def map_fst_update_one)

lemma unique_ids_insert_one: "insert_one c k d = Some c' \<Longrightarrow> unique_ids c \<Longrightarrow> unique_ids c'"
  by (auto simp: insert_one_def unique_ids_def find_one_None_iff split: if_splits)

subsection \<open>The endpoints as chains of cases\<close>

lemma strip_Nil: "strip [] = []"
  by (simp add: strip_def)

lemma strip_nonempty: "strip s \<noteq> [] \<Longrightarrow> s \<noteq> []"
  by (auto simp: strip_Nil)

lemma serialize_found:
  "find_one c k = Some d \<Longrightarrow>
   serialize_announcement d = (d(''id'' \<mapsto> VStr (str_val k)))(''_id'' := None)"
  by (simp add: serialize_announcement_def find_one_id)

lemma create_announcement_eq:
  "create_announcement st now new_id message expiration_date start_date teacher_username =
     (if find_one (teachers_collection st) (VStr teacher_username) = None then (Inl Unauthorized, st)
      else if \<not> dates_valid expiration_date start_date then (Inl InvalidDate, st)
      else if strip message = [] then (Inl EmptyMessage, st)
      else if find_one (announcements_collection st) (VOid new_id) \<noteq> None
        then (Inl DuplicateKeyError, st)
      else
        (Inr [''message'' \<mapsto> VStr (strip message),
              ''start_date'' \<mapsto> opt_str start_date,
              ''expiration_date'' \<mapsto> VStr expiration_date,
              ''created_by'' \<mapsto> VStr teacher_username,
              ''created_at'' \<mapsto> VStr (isoformat now),
              ''id'' \<mapsto> VStr (str_oid new_id)],
         st\<lparr>announcements_collection := announcements_collection st @
              [(VOid new_id,
                [''message'' \<mapsto> VStr (strip message),
                 ''start_date'' \<mapsto> opt_str start_date,
                 ''expiration_date'' \<mapsto> VStr expiration_date,
                 ''created_by'' \<mapsto> VStr teacher_username,
                 ''created_at'' \<mapsto> VStr (isoformat now)])]\<rparr>))"
proof -
  have r: "(([''message'' \<mapsto> VStr (strip message),
              ''start_date'' \<mapsto> opt_str start_date,
              ''expiration_date'' \<mapsto> VStr expiration_date,
              ''created_by'' \<mapsto> VStr teacher_username,
              ''created_at'' \<mapsto> VStr (isoformat now)](''_id'' \<mapsto> VOid new_id))
            (''id'' \<mapsto> VStr (str_oid new_id)))(''_id'' := None)
         = [''message'' \<mapsto> VStr (strip message),
              ''start_date'' \<mapsto> opt_str start_date,
              ''expiration_date'' \<mapsto> VStr expiration_date,
              ''created_by'' \<mapsto> VStr teacher_username,
              ''created_at'' \<mapsto> VStr (isoformat now),
              ''id'' \<mapsto> VStr (str_oid new_id)]"
    by (auto simp: fun_eq_iff)
  show ?thesis
    unfolding create_announcement_def Let_def insert_one_def r
    by (auto simp: strip_Nil split: option.splits)
qed

lemma update_one_found:
  assumes "find_one c k = Some d"
  shows "\<exists>n c'. update_one c k upd = (1, n, c')
           \<and> find_one c' k = Some ((set_fields d upd)(''_id'' \<mapsto> k))"
proof -
  obtain m n c' where u: "update_one c k upd = (m, n, c')"
    by (cases "update_one c k upd") auto
  with update_one_matched [OF assms, of upd] have "m = 1"
    by simp
  moreover from find_one_update_one [of c k upd k] assms u
  have "find_one c' k = Some ((set_fields d upd)(''_id'' \<mapsto> k))"
    by simp
  ultimately show ?thesis
    using u by simp
qed

lemma update_announcement_eq:
  "update_announcement st now announcement_id message expiration_date start_date teacher_username =
     (if find_one (teachers_collection st) (VStr teacher_username) = None then (Inl Unauthorized, st)
      else
        (case ObjectId announcement_id of
           None \<Rightarrow> (Inl InvalidId, st)
         | Some i \<Rightarrow>
             (case find_one (announcements_collection st) (VOid i) of
                None \<Rightarrow> (Inl NotFound, st)
              | Some existing \<Rightarrow>
                  if \<not> dates_valid expiration_date start_date then (Inl InvalidDate, st)
                  else if strip message = [] then (Inl EmptyMessage, st)
                  else
                    (Inr ((existing(''message'' \<mapsto> VStr (strip message),
                                    ''start_date'' \<mapsto> opt_str start_date,
                                    ''expiration_date'' \<mapsto> VStr expiration_date,
                                    ''updated_by'' \<mapsto> VStr teacher_username,
                                    ''updated_at'' \<mapsto> VStr (isoformat now),
                                    ''id'' \<mapsto> VStr (str_oid i)))(''_id'' := None)),
                     st\<lparr>announcements_collection :=
                          snd (snd (update_one (announcements_collection st) (VOid i)
                            [(''message'', VStr (strip message)),
                             (''start_date'', opt_str start_date),
                             (''expiration_date'', VStr expiration_date),
                             (''updated_by'', VStr teacher_username),
                             (''updated_at'', VStr (isoformat now))]))\<rparr>))))"
  (is "?lhs = ?rhs")
proof (cases "find_one (teachers_collection st) (VStr teacher_username)")
  case None
  then show ?thesis
    by (simp add: update_announcement_def update_announcement_with_def)
next
  case teacher: (Some teacher)
  show ?thesis
  proof (cases "ObjectId announcement_id")
    case None
    with teacher show ?thesis
      by (simp add: update_announcement_def update_announcement_with_def)
  next
    case oid: (Some i)
    show ?thesis
    proof (cases "find_one (announcements_collection st) (VOid i)")
      case None
      with teacher oid show ?thesis
        by (simp add: update_announcement_def update_announcement_with_def)
    next
      case existing: (Some existing)
      let ?upd = "[(''message'', VStr (strip message)),
                   (''start_date'', opt_str start_date),
                   (''expiration_date'', VStr expiration_date),
                   (''updated_by'', VStr teacher_username),
                   (''updated_at'', VStr (isoformat now))]"
      from update_one_found [OF existing, of ?upd] obtain n c'
        where u: "update_one (announcements_collection st) (VOid i) ?upd = (1, n, c')"
          and f: "find_one c' (VOid i) = Some ((set_fields existing ?upd)(''_id'' \<mapsto> VOid i))"
        by blast
      have s: "serialize_announcement ((set_fields existing ?upd)(''_id'' \<mapsto> VOid i))
             = (existing(''message'' \<mapsto> VStr (strip message),
                         ''start_date'' \<mapsto> opt_str start_date,
                         ''expiration_date'' \<mapsto> VStr expiration_date,
                         ''updated_by'' \<mapsto> VStr teacher_username,
                         ''updated_at'' \<mapsto> VStr (isoformat now),
                         ''id'' \<mapsto> VStr (str_oid i)))(''_id'' := None)"
        by (auto simp: serialize_announcement_def fun_eq_iff)
      from teacher oid existing u f s show ?thesis
        by (simp add: update_announcement_def update_announcement_with_def strip_Nil)
    qed
  qed
qed

lemma delete_announcement_eq:
  "delete_announcement st announcement_id teacher_username =
     (if find_one (teachers_collection st) (VStr teacher_username) = None then (Inl Unauthorized, st)
      else
        (case ObjectId announcement_id of
           None \<Rightarrow> (Inl InvalidId, st)
         | Some i \<Rightarrow>
             (case find_one (announcements_collection st) (VOid i) of
                None \<Rightarrow> (Inl NotFound, st)
              | Some existing \<Rightarrow>
                  (Inr [''message'' \<mapsto> VStr ''Announcement deleted successfully''],
                   st\<lparr>announcements_collection :=
                        snd (delete_one (announcements_collection st) (VOid i))\<rparr>))))"
proof (cases "find_one (teachers_collection st) (VStr teacher_username)")
  case None
  then show ?thesis
    by (simp add: delete_announcement_def)
next
  case teacher: (Some teacher)
  show ?thesis
  proof (cases "ObjectId announcement_id")
    case None
    with teacher show ?thesis
      by (simp add: delete_announcement_def)
  next
    case oid: (Some i)
    show ?thesis
    proof (cases "find_one (announcements_collection st) (VOid i)")
      case None
      with teacher oid delete_one_unmatched [OF None] show ?thesis
        by (simp add: delete_announcement_def)
    next
      case (Some existing)
      with delete_one_matched [OF Some] obtain c'
        where "delete_one (announcements_collection st) (VOid i) = (1, c')"
        by (cases "delete_one (announcements_collection st) (VOid i)") auto
      with teacher oid Some show ?thesis
        by (simp add: delete_announcement_def)
    qed
  qed
qed

subsection \<open>Listing\<close>








text \<open>
  The listing compares the strings the documents hold. For dates written with all their
  digits that is the order of the calendar. The validation of \<^verbatim>\<open>create_announcement\<close>
  and \<^verbatim>\<open>update_announcement\<close> also accepts a month or a day without its leading zero,
  and such a date is compared as the string it is: 1 September 2024 written
  \<^verbatim>\<open>2024-9-1\<close> is not before \<^verbatim>\<open>2024-10-15\<close>.
\<close>

lemma unpadded_date_compares_as_string:
  "dates_valid ''2024-9-1'' None \<and> str_le ''2024-10-15'' ''2024-9-1''"
  by (simp add: dates_valid_def strptime_ymd_def is_digit_def digit_val_def days_in_month_def
      is_leap_def)

subsection \<open>Fetching one announcement\<close>


lemma example_find_first:
  "find_one (announcements_collection example_db) (VOid 1)
     = Some [''message'' \<mapsto> VStr ''Exam Friday'',
             ''start_date'' \<mapsto> VNull,
             ''expiration_date'' \<mapsto> VStr ''2099-01-01'',
             ''created_by'' \<mapsto> VStr ''mrodriguez'',
             ''created_at'' \<mapsto> VStr ''2024-01-10T08:00:00'',
             ''_id'' \<mapsto> VOid 1]"
  by (simp add: example_db_def example_announcements_def doc_of_def)

lemma example_parse_first: "ObjectId ''000000000000000000000001'' = Some 1"
  by (simp add: ObjectId_def hex_val_def)

lemma example_parse_ninth: "ObjectId ''000000000000000000000009'' = Some 9"
  by (simp add: ObjectId_def hex_val_def)


lemma example_find_ninth: "find_one (announcements_collection example_db) (VOid 9) = None"
  by (simp add: example_db_def example_announcements_def)

lemma example_str_first: "str_oid 1 = ''000000000000000000000001''"
  by (simp add: str_oid_def to_hex_numeral hex_digit_def)


subsection \<open>Creating an announcement\<close>


lemma example_teacher: "find_one (teachers_collection example_db) (VStr ''mrodriguez'') \<noteq> None"
  by (simp add: example_db_def example_teachers_def)

lemma example_strptime: "strptime_ymd ''2024-09-01'' \<noteq> None"
  by (simp add: strptime_ymd_def is_digit_def digit_val_def days_in_month_def is_leap_def)

lemma example_strip: "strip ''  Pep rally  '' = ''Pep rally''"
  by (simp add: strip_def is_space_def)

lemma example_isoformat: "isoformat example_now = ''2024-06-15T10:30:00''"
  by (simp add: isoformat_def strftime_ymd_def example_now_def dec2_def dec4_def digit_char_def)

lemma example_fresh: "find_one (announcements_collection example_db) (VOid 4) = None"
  by (simp add: example_db_def example_announcements_def)

lemma example_str_fourth: "str_oid 4 = ''000000000000000000000004''"
  by (simp add: str_oid_def to_hex_numeral hex_digit_def)


lemma example_create:
  "create_announcement example_db example_now 4 ''  Pep rally  '' ''2024-09-01'' None ''mrodriguez''
     = (Inr example_record, example_db_created)"
proof -
  have "dates_valid ''2024-09-01'' None"
    using example_strptime by (simp add: dates_valid_def)
  then show ?thesis
    using example_teacher example_fresh
    by (simp add: create_announcement_eq example_strip example_isoformat example_str_fourth
        opt_str_def example_record_def example_db_created_def)
qed

text \<open>
  C3. After a successful \<^verbatim>\<open>create_announcement\<close>, \<^verbatim>\<open>get_announcement\<close> on the
  \<^verbatim>\<open>id\<close> of the returned record succeeds in the new state and returns that same record.
\<close>

theorem create_then_get:
  assumes "create_announcement st now new_id message expiration_date start_date teacher_username
             = (Inr r, st')"
  shows "r ''id'' = Some (VStr (str_oid new_id)) \<and> get_announcement st' (str_oid new_id) = Inr r"
proof -
  let ?fields = "[''message'' \<mapsto> VStr (strip message),
                  ''start_date'' \<mapsto> opt_str start_date,
                  ''expiration_date'' \<mapsto> VStr expiration_date,
                  ''created_by'' \<mapsto> VStr teacher_username,
                  ''created_at'' \<mapsto> VStr (isoformat now)]"
  from assms have fresh: "find_one (announcements_collection st) (VOid new_id) = None"
    and r: "r = ?fields(''id'' \<mapsto> VStr (str_oid new_id))"
    and st': "st' = st\<lparr>announcements_collection :=
                 announcements_collection st @ [(VOid new_id, ?fields)]\<rparr>"
    by (auto simp: create_announcement_eq split: if_splits)
  from fresh st' have "find_one (announcements_collection st') (VOid new_id)
      = Some (?fields(''_id'' \<mapsto> VOid new_id))"
    by (simp add: find_one_append doc_of_def)
  moreover have "serialize_announcement (?fields(''_id'' \<mapsto> VOid new_id)) = r"
    unfolding r by (auto simp: serialize_announcement_def fun_eq_iff)
  ultimately have "get_announcement st' (str_oid new_id) = Inr r"
    by (simp add: get_announcement_def ObjectId_str_oid)
  with r show ?thesis
    by simp
qed

theorem create_then_get_witness:
  "create_announcement example_db example_now 4 ''  Pep rally  '' ''2024-09-01'' None ''mrodriguez''
     = (Inr example_record, example_db_created)
   \<and> example_record ''id'' = Some (VStr ''000000000000000000000004'')
   \<and> get_announcement example_db_created ''000000000000000000000004'' = Inr example_record"
  using example_create create_then_get [OF example_create, unfolded example_str_fourth]
  by blast

subsection \<open>Updating an announcement\<close>

lemma update_announcement_state:
  assumes "update_announcement st now announcement_id message expiration_date start_date
             teacher_username = (Inr r, st')"
  shows "\<exists>i existing.
      ObjectId announcement_id = Some i
    \<and> find_one (announcements_collection st) (VOid i) = Some existing
    \<and> find_one (teachers_collection st) (VStr teacher_username) \<noteq> None
    \<and> dates_valid expiration_date start_date
    \<and> strip message \<noteq> []
    \<and> r = (existing(''message'' \<mapsto> VStr (strip message),
                     ''start_date'' \<mapsto> opt_str start_date,
                     ''expiration_date'' \<mapsto> VStr expiration_date,
                     ''updated_by'' \<mapsto> VStr teacher_username,
                     ''updated_at'' \<mapsto> VStr (isoformat now),
                     ''id'' \<mapsto> VStr (str_oid i)))(''_id'' := None)
    \<and> st' = st\<lparr>announcements_collection :=
               snd (snd (update_one (announcements_collection st) (VOid i)
                 [(''message'', VStr (strip message)),
                  (''start_date'', opt_str start_date),
                  (''expiration_date'', VStr expiration_date),
                  (''updated_by'', VStr teacher_username),
                  (''updated_at'', VStr (isoformat now))]))\<rparr>"
  using assms unfolding update_announcement_eq
  by (auto split: if_splits option.splits)

lemma find_one_after_update:
  assumes "find_one c (VOid i) = Some existing"
  shows "find_one (snd (snd (update_one c (VOid i)
            [(''message'', m), (''start_date'', s), (''expiration_date'', e),
             (''updated_by'', u), (''updated_at'', a)]))) (VOid i)
         = Some (existing(''message'' \<mapsto> m, ''start_date'' \<mapsto> s, ''expiration_date'' \<mapsto> e,
                          ''updated_by'' \<mapsto> u, ''updated_at'' \<mapsto> a))"
proof -
  from assms have "existing ''_id'' = Some (VOid i)"
    by (rule find_one_id)
  then have "(existing(''message'' \<mapsto> m, ''start_date'' \<mapsto> s, ''expiration_date'' \<mapsto> e,
                          ''updated_by'' \<mapsto> u, ''updated_at'' \<mapsto> a))(''_id'' \<mapsto> VOid i)
           = existing(''message'' \<mapsto> m, ''start_date'' \<mapsto> s, ''expiration_date'' \<mapsto> e,
                          ''updated_by'' \<mapsto> u, ''updated_at'' \<mapsto> a)"
    by (auto simp: fun_eq_iff)
  with assms show ?thesis
    by (simp add: find_one_update_one)
qed

text \<open>
  C4. A successful \<^verbatim>\<open>update_announcement\<close> leaves the document of that identifier with
  \<^verbatim>\<open>message\<close>, \<^verbatim>\<open>start_date\<close> and \<^verbatim>\<open>expiration_date\<close> overwritten by the trimmed
  message and the submitted dates (null for an omitted start date), with \<^verbatim>\<open>updated_by\<close>
  and \<^verbatim>\<open>updated_at\<close> set, and with every other field, \<^verbatim>\<open>created_by\<close> and
  \<^verbatim>\<open>created_at\<close> among them, as it was. The record returned is the serialization of the
  document found in the store after the write. No other document and no teacher changes.
\<close>

theorem update_announcement_frame:
  assumes "update_announcement st now announcement_id message expiration_date start_date
             teacher_username = (Inr r, st')"
  shows "\<exists>i existing updated.
      ObjectId announcement_id = Some i
    \<and> find_one (announcements_collection st) (VOid i) = Some existing
    \<and> find_one (announcements_collection st') (VOid i) = Some updated
    \<and> updated = existing(''message'' \<mapsto> VStr (strip message),
                          ''start_date'' \<mapsto> (case start_date of None \<Rightarrow> VNull | Some s \<Rightarrow> VStr s),
                          ''expiration_date'' \<mapsto> VStr expiration_date,
                          ''updated_by'' \<mapsto> VStr teacher_username,
                          ''updated_at'' \<mapsto> VStr (isoformat now))
    \<and> updated ''created_by'' = existing ''created_by''
    \<and> updated ''created_at'' = existing ''created_at''
    \<and> r = serialize_announcement updated
    \<and> (\<forall>k. k \<noteq> VOid i \<longrightarrow>
          find_one (announcements_collection st') k = find_one (announcements_collection st) k)
    \<and> teachers_collection st' = teachers_collection st"
proof -
  let ?upd = "[(''message'', VStr (strip message)),
               (''start_date'', opt_str start_date),
               (''expiration_date'', VStr expiration_date),
               (''updated_by'', VStr teacher_username),
               (''updated_at'', VStr (isoformat now))]"
  from update_announcement_state [OF assms] obtain i existing
    where i: "ObjectId announcement_id = Some i"
      and existing: "find_one (announcements_collection st) (VOid i) = Some existing"
      and r: "r = (existing(''message'' \<mapsto> VStr (strip message),
                     ''start_date'' \<mapsto> opt_str start_date,
                     ''expiration_date'' \<mapsto> VStr expiration_date,
                     ''updated_by'' \<mapsto> VStr teacher_username,
                     ''updated_at'' \<mapsto> VStr (isoformat now),
                     ''id'' \<mapsto> VStr (str_oid i)))(''_id'' := None)"
      and st': "st' = st\<lparr>announcements_collection :=
               snd (snd (update_one (announcements_collection st) (VOid i) ?upd))\<rparr>"
    by blast
  let ?updated = "existing(''message'' \<mapsto> VStr (strip message),
                     ''start_date'' \<mapsto> opt_str start_date,
                     ''expiration_date'' \<mapsto> VStr expiration_date,
                     ''updated_by'' \<mapsto> VStr teacher_username,
                     ''updated_at'' \<mapsto> VStr (isoformat now))"
  have found: "find_one (announcements_collection st') (VOid i) = Some ?updated"
    unfolding st' using find_one_after_update [OF existing] by simp
  have ser: "r = serialize_announcement ?updated"
    unfolding r serialize_found [OF found] by simp
  have others: "\<forall>k. k \<noteq> VOid i \<longrightarrow>
      find_one (announcements_collection st') k = find_one (announcements_collection st) k"
    unfolding st' by (simp add: find_one_update_one)
  have teachers: "teachers_collection st' = teachers_collection st"
    unfolding st' by simp
  have o: "opt_str start_date = (case start_date of None \<Rightarrow> VNull | Some s \<Rightarrow> VStr s)"
    by (simp add: opt_str_def)
  have "?updated ''created_by'' = existing ''created_by''"
    and "?updated ''created_at'' = existing ''created_at''"
    by simp_all
  with i existing found ser others teachers show ?thesis
    unfolding o by blast
qed

lemma example_dates_valid: "dates_valid ''2099-02-01'' (Some ''2024-06-01'')"
  by (simp add: dates_valid_def strptime_ymd_def is_digit_def digit_val_def days_in_month_def
      is_leap_def)

lemma example_strip_update: "strip '' Exam on Monday '' = ''Exam on Monday''"
  by (simp add: strip_def is_space_def)

lemma example_update:
  "update_announcement example_db example_now ''000000000000000000000001'' '' Exam on Monday ''
       ''2099-02-01'' (Some ''2024-06-01'') ''mrodriguez''
     = (Inr (example_updated(''id'' \<mapsto> VStr ''000000000000000000000001'')), example_db_updated)"
proof -
  have r: "([''message'' \<mapsto> VStr ''Exam Friday'',
             ''start_date'' \<mapsto> VNull,
             ''expiration_date'' \<mapsto> VStr ''2099-01-01'',
             ''created_by'' \<mapsto> VStr ''mrodriguez'',
             ''created_at'' \<mapsto> VStr ''2024-01-10T08:00:00'',
             ''_id'' \<mapsto> VOid 1,
             ''message'' \<mapsto> VStr ''Exam on Monday'',
             ''start_date'' \<mapsto> VStr ''2024-06-01'',
             ''expiration_date'' \<mapsto> VStr ''2099-02-01'',
             ''updated_by'' \<mapsto> VStr ''mrodriguez'',
             ''updated_at'' \<mapsto> VStr ''2024-06-15T10:30:00'',
             ''id'' \<mapsto> VStr ''000000000000000000000001''])(''_id'' := None)
          = example_updated(''id'' \<mapsto> VStr ''000000000000000000000001'')"
    by (auto simp: fun_eq_iff example_updated_def)
  have s: "[''message'' \<mapsto> VStr ''Exam Friday'',
             ''start_date'' \<mapsto> VNull,
             ''expiration_date'' \<mapsto> VStr ''2099-01-01'',
             ''created_by'' \<mapsto> VStr ''mrodriguez'',
             ''created_at'' \<mapsto> VStr ''2024-01-10T08:00:00'',
             ''message'' \<mapsto> VStr ''Exam on Monday'',
             ''start_date'' \<mapsto> VStr ''2024-06-01'',
             ''expiration_date'' \<mapsto> VStr ''2099-02-01'',
             ''updated_by'' \<mapsto> VStr ''mrodriguez'',
             ''updated_at'' \<mapsto> VStr ''2024-06-15T10:30:00'']
          = example_updated"
    by (auto simp: fun_eq_iff example_updated_def)
  have u: "snd (snd (update_one (announcements_collection example_db) (VOid 1)
             [(''message'', VStr ''Exam on Monday''),
              (''start_date'', VStr ''2024-06-01''),
              (''expiration_date'', VStr ''2099-02-01''),
              (''updated_by'', VStr ''mrodriguez''),
              (''updated_at'', VStr ''2024-06-15T10:30:00'')]))
           = (VOid 1, example_updated) # tl example_announcements"
    unfolding s [symmetric]
    by (simp add: example_db_def example_announcements_def)
  show ?thesis
    using example_teacher example_dates_valid
    unfolding update_announcement_eq example_parse_first example_find_first
      example_strip_update example_isoformat example_str_first opt_str_def option.case
      u r example_db_updated_def
    by simp
qed

lemma example_find_updated:
  "find_one (announcements_collection example_db_updated) (VOid 1)
     = Some (example_updated(''_id'' \<mapsto> VOid 1))"
  by (simp add: example_db_updated_def doc_of_def)

theorem update_announcement_frame_witness:
  "update_announcement example_db example_now ''000000000000000000000001'' '' Exam on Monday ''
       ''2099-02-01'' (Some ''2024-06-01'') ''mrodriguez''
     = (Inr (example_updated(''id'' \<mapsto> VStr ''000000000000000000000001'')), example_db_updated)
   \<and> find_one (announcements_collection example_db_updated) (VOid 1)
       = Some (example_updated(''_id'' \<mapsto> VOid 1))
   \<and> (\<exists>i existing updated.
      ObjectId ''000000000000000000000001'' = Some i
    \<and> find_one (announcements_collection example_db) (VOid i) = Some existing
    \<and> find_one (announcements_collection example_db_updated) (VOid i) = Some updated
    \<and> updated = existing(''message'' \<mapsto> VStr (strip '' Exam on Monday ''),
                          ''start_date'' \<mapsto> (case Some ''2024-06-01'' of None \<Rightarrow> VNull | Some s \<Rightarrow> VStr s),
                          ''expiration_date'' \<mapsto> VStr ''2099-02-01'',
                          ''updated_by'' \<mapsto> VStr ''mrodriguez'',
                          ''updated_at'' \<mapsto> VStr (isoformat example_now))
    \<and> updated ''created_by'' = existing ''created_by''
    \<and> updated ''created_at'' = existing ''created_at''
    \<and> example_updated(''id'' \<mapsto> VStr ''000000000000000000000001'') = serialize_announcement updated
    \<and> (\<forall>k. k \<noteq> VOid i \<longrightarrow>
          find_one (announcements_collection example_db_updated) k
            = find_one (announcements_collection example_db) k)
    \<and> teachers_collection example_db_updated = teachers_collection example_db)"
  using example_update example_find_updated update_announcement_frame [OF example_update]
  by blast

subsection \<open>Failures\<close>

lemma update_one_keeps_state:
  "find_one (announcements_collection st) k = None \<Longrightarrow>
   st\<lparr>announcements_collection := snd (snd (update_one (announcements_collection st) k upd))\<rparr> = st"
  by (simp add: update_one_unmatched)

lemma create_announcement_failure:
  "fst (create_announcement st now new_id message expiration_date start_date teacher_username) = Inl e
   \<Longrightarrow> snd (create_announcement st now new_id message expiration_date start_date teacher_username) = st"
  by (simp add: create_announcement_eq split: if_splits)

lemma update_announcement_failure:
  "fst (update_announcement st now announcement_id message expiration_date start_date
          teacher_username) = Inl e
   \<Longrightarrow> snd (update_announcement st now announcement_id message expiration_date start_date
          teacher_username) = st"
  by (simp add: update_announcement_eq split: if_splits option.splits)

lemma delete_announcement_failure:
  "fst (delete_announcement st announcement_id teacher_username) = Inl e
   \<Longrightarrow> snd (delete_announcement st announcement_id teacher_username) = st"
  by (simp add: delete_announcement_eq split: if_splits option.splits)

text \<open>
  C5. Whenever \<^verbatim>\<open>create_announcement\<close>, \<^verbatim>\<open>update_announcement\<close> or
  \<^verbatim>\<open>delete_announcement\<close> raises, both collections are as they were before the call. In
  particular a teacher who is not in the directory gets the 401 error from all three, and
  an update of an existing announcement with an expiration date that does not parse gets
  the 400 error for the date; the state is unchanged in both cases. (The two reading
  endpoints never write.)
\<close>

theorem failure_changes_nothing:
  "(\<forall>e. fst (create_announcement st now new_id message expiration_date start_date teacher_username)
          = Inl e \<longrightarrow>
        snd (create_announcement st now new_id message expiration_date start_date teacher_username)
          = st)
   \<and> (\<forall>e. fst (update_announcement st now announcement_id message expiration_date start_date
               teacher_username) = Inl e \<longrightarrow>
        snd (update_announcement st now announcement_id message expiration_date start_date
               teacher_username) = st)
   \<and> (\<forall>e. fst (delete_announcement st announcement_id teacher_username) = Inl e \<longrightarrow>
        snd (delete_announcement st announcement_id teacher_username) = st)
   \<and> (find_one (teachers_collection st) (VStr teacher_username) = None \<longrightarrow>
        create_announcement st now new_id message expiration_date start_date teacher_username
          = (Inl Unauthorized, st)
        \<and> update_announcement st now announcement_id message expiration_date start_date
            teacher_username = (Inl Unauthorized, st)
        \<and> delete_announcement st announcement_id teacher_username = (Inl Unauthorized, st))
   \<and> (\<forall>i. find_one (teachers_collection st) (VStr teacher_username) \<noteq> None
          \<and> ObjectId announcement_id = Some i
          \<and> find_one (announcements_collection st) (VOid i) \<noteq> None
          \<and> strptime_ymd expiration_date = None \<longrightarrow>
        update_announcement st now announcement_id message expiration_date start_date
            teacher_username = (Inl InvalidDate, st))"
proof (intro conjI allI impI)
  fix e
  assume "fst (create_announcement st now new_id message expiration_date start_date
                 teacher_username) = Inl e"
  then show "snd (create_announcement st now new_id message expiration_date start_date
                 teacher_username) = st"
    by (rule create_announcement_failure)
next
  fix e
  assume "fst (update_announcement st now announcement_id message expiration_date start_date
               teacher_username) = Inl e"
  then show "snd (update_announcement st now announcement_id message expiration_date start_date
               teacher_username) = st"
    by (rule update_announcement_failure)
next
  fix e
  assume "fst (delete_announcement st announcement_id teacher_username) = Inl e"
  then show "snd (delete_announcement st announcement_id teacher_username) = st"
    by (rule delete_announcement_failure)
next
  assume "find_one (teachers_collection st) (VStr teacher_username) = None"
  then show "create_announcement st now new_id message expiration_date start_date teacher_username
          = (Inl Unauthorized, st)"
    by (simp add: create_announcement_eq)
next
  assume "find_one (teachers_collection st) (VStr teacher_username) = None"
  then show "update_announcement st now announcement_id message expiration_date start_date
            teacher_username = (Inl Unauthorized, st)"
    by (simp add: update_announcement_eq)
next
  assume "find_one (teachers_collection st) (VStr teacher_username) = None"
  then show "delete_announcement st announcement_id teacher_username = (Inl Unauthorized, st)"
    by (simp add: delete_announcement_eq)
next
  fix i
  assume "find_one (teachers_collection st) (VStr teacher_username) \<noteq> None
          \<and> ObjectId announcement_id = Some i
          \<and> find_one (announcements_collection st) (VOid i) \<noteq> None
          \<and> strptime_ymd expiration_date = None"
  then show "update_announcement st now announcement_id message expiration_date start_date
            teacher_username = (Inl InvalidDate, st)"
    by (auto simp: update_announcement_eq dates_valid_def)
qed

lemma example_no_intruder:
  "find_one (teachers_collection example_db) (VStr ''intruder'') = None"
  by (simp add: example_db_def example_teachers_def)

lemma example_not_a_date: "strptime_ymd ''not-a-date'' = None"
  by (simp add: strptime_ymd_def is_digit_def)

lemma example_first_exists:
  "find_one (announcements_collection example_db) (VOid 1) \<noteq> None"
  by (simp add: example_find_first)

theorem failure_changes_nothing_witness:
  "find_one (teachers_collection example_db) (VStr ''intruder'') = None
   \<and> create_announcement example_db example_now 4 ''Free pizza'' ''2024-09-01'' None ''intruder''
       = (Inl Unauthorized, example_db)
   \<and> update_announcement example_db example_now ''000000000000000000000001'' ''Free pizza''
         ''2024-09-01'' None ''intruder'' = (Inl Unauthorized, example_db)
   \<and> delete_announcement example_db ''000000000000000000000001'' ''intruder''
       = (Inl Unauthorized, example_db)
   \<and> find_one (teachers_collection example_db) (VStr ''mrodriguez'') \<noteq> None
   \<and> ObjectId ''000000000000000000000001'' = Some 1
   \<and> find_one (announcements_collection example_db) (VOid 1) \<noteq> None
   \<and> strptime_ymd ''not-a-date'' = None
   \<and> update_announcement example_db example_now ''000000000000000000000001'' ''Exam Friday''
         ''not-a-date'' None ''mrodriguez'' = (Inl InvalidDate, example_db)"
proof -
  note a = failure_changes_nothing [of example_db example_now 4 "''Free pizza''" "''2024-09-01''"
      None "''intruder''" "''000000000000000000000001''"]
  note b = failure_changes_nothing [of example_db example_now 4 "''Exam Friday''" "''not-a-date''"
      None "''mrodriguez''" "''000000000000000000000001''"]
  from a example_no_intruder
  have "create_announcement example_db example_now 4 ''Free pizza'' ''2024-09-01'' None ''intruder''
       = (Inl Unauthorized, example_db)
   \<and> update_announcement example_db example_now ''000000000000000000000001'' ''Free pizza''
         ''2024-09-01'' None ''intruder'' = (Inl Unauthorized, example_db)
   \<and> delete_announcement example_db ''000000000000000000000001'' ''intruder''
       = (Inl Unauthorized, example_db)"
    by blast
  moreover from b example_teacher example_parse_first example_first_exists example_not_a_date
  have "update_announcement example_db example_now ''000000000000000000000001'' ''Exam Friday''
         ''not-a-date'' None ''mrodriguez'' = (Inl InvalidDate, example_db)"
    by blast
  ultimately show ?thesis
    using example_no_intruder example_teacher example_parse_first example_first_exists
      example_not_a_date by blast
qed

text \<open>
  C7. For a teacher of the directory, \<^verbatim>\<open>update_announcement\<close> answers an identifier that
  does not parse with the 400 error for the identifier, and one that parses but has no
  document with the 404 error, whatever the message and the dates are. The errors for a date
  or for an empty message are raised only when the identifier parses and its document exists.
\<close>

theorem update_checks_id_first:
  assumes "find_one (teachers_collection st) (VStr teacher_username) \<noteq> None"
  shows "(ObjectId announcement_id = None \<longrightarrow>
            update_announcement st now announcement_id message expiration_date start_date
              teacher_username = (Inl InvalidId, st))
   \<and> (\<forall>i. ObjectId announcement_id = Some i
            \<and> find_one (announcements_collection st) (VOid i) = None \<longrightarrow>
            update_announcement st now announcement_id message expiration_date start_date
              teacher_username = (Inl NotFound, st))
   \<and> (fst (update_announcement st now announcement_id message expiration_date start_date
              teacher_username) = Inl InvalidDate
        \<or> fst (update_announcement st now announcement_id message expiration_date start_date
              teacher_username) = Inl EmptyMessage \<longrightarrow>
        (\<exists>i. ObjectId announcement_id = Some i
            \<and> find_one (announcements_collection st) (VOid i) \<noteq> None))"
  using assms
  by (auto simp: update_announcement_eq InvalidId_def NotFound_def InvalidDate_def
      EmptyMessage_def Unauthorized_def split: option.splits if_splits)

lemma example_parse_bogus: "ObjectId ''bogus'' = None"
  by (simp add: ObjectId_def)

theorem update_checks_id_first_witness:
  "find_one (teachers_collection example_db) (VStr ''mrodriguez'') \<noteq> None
   \<and> ObjectId ''bogus'' = None
   \<and> strptime_ymd ''not-a-date'' = None
   \<and> strip ''   '' = []
   \<and> update_announcement example_db example_now ''bogus'' ''   '' ''not-a-date'' None ''mrodriguez''
       = (Inl InvalidId, example_db)
   \<and> ObjectId ''000000000000000000000009'' = Some 9
   \<and> find_one (announcements_collection example_db) (VOid 9) = None
   \<and> update_announcement example_db example_now ''000000000000000000000009'' ''   ''
         ''not-a-date'' None ''mrodriguez'' = (Inl NotFound, example_db)"
proof -
  have s: "strip ''   '' = []"
    by (simp add: strip_def is_space_def)
  from update_checks_id_first [OF example_teacher, of "''bogus''" example_now "''   ''"
      "''not-a-date''" None] example_parse_bogus
  have a: "update_announcement example_db example_now ''bogus'' ''   '' ''not-a-date'' None
             ''mrodriguez'' = (Inl InvalidId, example_db)"
    by blast
  from update_checks_id_first [OF example_teacher, of "''000000000000000000000009''" example_now
      "''   ''" "''not-a-date''" None] example_parse_ninth example_find_ninth
  have b: "update_announcement example_db example_now ''000000000000000000000009'' ''   ''
         ''not-a-date'' None ''mrodriguez'' = (Inl NotFound, example_db)"
    by blast
  from a b s example_teacher example_parse_bogus example_not_a_date example_parse_ninth
    example_find_ninth
  show ?thesis by blast
qed

text \<open>
  C8. \<^verbatim>\<open>update_announcement\<close> raises the 500 error "Failed to update announcement" only
  if the store's \<^verbatim>\<open>update_one\<close> reports no match and no modification for the identifier
  of a document that \<^verbatim>\<open>find_one\<close> has just returned. With the collection's own
  \<^verbatim>\<open>update_one\<close> that never happens: the update raises neither this error nor any other
  server error.
\<close>

theorem update_failed_unreachable:
  "(fst (update_announcement_with store_update_one st now announcement_id message expiration_date
           start_date teacher_username) = Inl UpdateFailed \<longrightarrow>
      (\<exists>i existing coll.
          ObjectId announcement_id = Some i
        \<and> find_one (announcements_collection st) (VOid i) = Some existing
        \<and> store_update_one (announcements_collection st) (VOid i)
            [(''message'', VStr (strip message)),
             (''start_date'', opt_str start_date),
             (''expiration_date'', VStr expiration_date),
             (''updated_by'', VStr teacher_username),
             (''updated_at'', VStr (isoformat now))] = (0, 0, coll)))
   \<and> fst (update_announcement st now announcement_id message expiration_date start_date
           teacher_username) \<noteq> Inl UpdateFailed
   \<and> fst (update_announcement st now announcement_id message expiration_date start_date
           teacher_username) \<noteq> Inl ResponseValidationError"
proof (intro conjI impI)
  assume "fst (update_announcement_with store_update_one st now announcement_id message
                 expiration_date start_date teacher_username) = Inl UpdateFailed"
  then show "\<exists>i existing coll.
          ObjectId announcement_id = Some i
        \<and> find_one (announcements_collection st) (VOid i) = Some existing
        \<and> store_update_one (announcements_collection st) (VOid i)
            [(''message'', VStr (strip message)),
             (''start_date'', opt_str start_date),
             (''expiration_date'', VStr expiration_date),
             (''updated_by'', VStr teacher_username),
             (''updated_at'', VStr (isoformat now))] = (0, 0, coll)"
    by (auto simp: update_announcement_with_def Let_def UpdateFailed_def Unauthorized_def
        InvalidId_def NotFound_def InvalidDate_def EmptyMessage_def
        split: option.splits if_splits prod.splits)
next
  show "fst (update_announcement st now announcement_id message expiration_date start_date
           teacher_username) \<noteq> Inl UpdateFailed"
    by (auto simp: update_announcement_eq UpdateFailed_def Unauthorized_def
        InvalidId_def NotFound_def InvalidDate_def EmptyMessage_def
        split: option.splits if_splits)
next
  show "fst (update_announcement st now announcement_id message expiration_date start_date
           teacher_username) \<noteq> Inl ResponseValidationError"
    by (auto simp: update_announcement_eq UpdateFailed_def Unauthorized_def
        InvalidId_def NotFound_def InvalidDate_def EmptyMessage_def
        split: option.splits if_splits)
qed

lemma example_misreport:
  "fst (update_announcement_with (\<lambda>c k upd. (0, 0, c)) example_db example_now
          ''000000000000000000000001'' '' Exam on Monday '' ''2099-02-01'' (Some ''2024-06-01'')
          ''mrodriguez'') = Inl UpdateFailed"
  using example_teacher example_dates_valid
  by (auto simp: update_announcement_with_def example_parse_first example_find_first
      example_strip_update split: option.splits)

theorem update_failed_unreachable_witness:
  "fst (update_announcement_with (\<lambda>c k upd. (0, 0, c)) example_db example_now
          ''000000000000000000000001'' '' Exam on Monday '' ''2099-02-01'' (Some ''2024-06-01'')
          ''mrodriguez'') = Inl UpdateFailed
   \<and> (\<exists>i existing coll.
          ObjectId ''000000000000000000000001'' = Some i
        \<and> find_one (announcements_collection example_db) (VOid i) = Some existing
        \<and> (\<lambda>c k upd. (0, 0, c)) (announcements_collection example_db) (VOid i)
            [(''message'', VStr (strip '' Exam on Monday '')),
             (''start_date'', opt_str (Some ''2024-06-01'')),
             (''expiration_date'', VStr ''2099-02-01''),
             (''updated_by'', VStr ''mrodriguez''),
             (''updated_at'', VStr (isoformat example_now))] = (0, 0, coll))
   \<and> fst (update_announcement example_db example_now ''000000000000000000000001''
            '' Exam on Monday '' ''2099-02-01'' (Some ''2024-06-01'') ''mrodriguez'')
       \<noteq> Inl UpdateFailed
   \<and> fst (update_announcement example_db example_now ''000000000000000000000001''
            '' Exam on Monday '' ''2099-02-01'' (Some ''2024-06-01'') ''mrodriguez'')
       \<noteq> Inl ResponseValidationError"
  using example_misreport
    update_failed_unreachable [of "\<lambda>c k upd. (0, 0, c)" example_db example_now
      "''000000000000000000000001''" "'' Exam on Monday ''" "''2099-02-01''"
      "Some ''2024-06-01''" "''mrodriguez''"]
  by blast

subsection \<open>Deleting an announcement\<close>

lemma unique_ids_preserved:
  assumes "unique_ids (announcements_collection st)"
  shows "unique_ids (announcements_collection
           (snd (create_announcement st now new_id message expiration_date start_date t)))"
    and "unique_ids (announcements_collection
           (snd (update_announcement st now announcement_id message expiration_date start_date t)))"
    and "unique_ids (announcements_collection (snd (delete_announcement st announcement_id t)))"
proof -
  show "unique_ids (announcements_collection
           (snd (create_announcement st now new_id message expiration_date start_date t)))"
    using assms by (auto simp: create_announcement_eq unique_ids_def find_one_None_iff)
  show "unique_ids (announcements_collection
           (snd (update_announcement st now announcement_id message expiration_date start_date t)))"
    using assms
    by (auto simp: update_announcement_eq unique_ids_update_one split: option.splits)
  show "unique_ids (announcements_collection (snd (delete_announcement st announcement_id t)))"
    using assms
    by (auto simp: delete_announcement_eq unique_ids_delete_one split: option.splits)
qed

text \<open>
  C9. In a store whose identifiers are unique, when the teacher is in the directory and the
  identifier parses and has a document, \<^verbatim>\<open>delete_announcement\<close> returns the confirmation
  \<^verbatim>\<open>{"message": "Announcement deleted successfully"}\<close>, and \<^verbatim>\<open>get_announcement\<close> on the
  same identifier then raises the 404 error. The other documents and the teachers stay.
\<close>

theorem delete_then_get:
  assumes unique: "unique_ids (announcements_collection st)"
    and teacher: "find_one (teachers_collection st) (VStr teacher_username) \<noteq> None"
    and parsed: "ObjectId announcement_id = Some i"
    and exists: "find_one (announcements_collection st) (VOid i) \<noteq> None"
  shows "fst (delete_announcement st announcement_id teacher_username)
           = Inr [''message'' \<mapsto> VStr ''Announcement deleted successfully'']
   \<and> get_announcement (snd (delete_announcement st announcement_id teacher_username))
         announcement_id = Inl NotFound
   \<and> (\<forall>k. k \<noteq> VOid i \<longrightarrow>
         find_one (announcements_collection
           (snd (delete_announcement st announcement_id teacher_username))) k
         = find_one (announcements_collection st) k)
   \<and> teachers_collection (snd (delete_announcement st announcement_id teacher_username))
       = teachers_collection st"
proof -
  from exists obtain existing
    where existing: "find_one (announcements_collection st) (VOid i) = Some existing"
    by blast
  with teacher parsed
  have d: "delete_announcement st announcement_id teacher_username
      = (Inr [''message'' \<mapsto> VStr ''Announcement deleted successfully''],
         st\<lparr>announcements_collection :=
              snd (delete_one (announcements_collection st) (VOid i))\<rparr>)"
    by (simp add: delete_announcement_eq)
  have gone: "find_one (snd (delete_one (announcements_collection st) (VOid i))) (VOid i) = None"
    using unique by (rule find_one_delete_same)
  show ?thesis
    unfolding d using parsed gone
    by (simp add: get_announcement_def find_one_delete_other)
qed

lemma example_unique: "unique_ids (announcements_collection example_db)"
  by (simp add: unique_ids_def example_db_def example_announcements_def)

theorem delete_then_get_witness:
  "unique_ids (announcements_collection example_db)
   \<and> find_one (teachers_collection example_db) (VStr ''mrodriguez'') \<noteq> None
   \<and> ObjectId ''000000000000000000000001'' = Some 1
   \<and> find_one (announcements_collection example_db) (VOid 1) \<noteq> None
   \<and> fst (delete_announcement example_db ''000000000000000000000001'' ''mrodriguez'')
       = Inr [''message'' \<mapsto> VStr ''Announcement deleted successfully'']
   \<and> get_announcement (snd (delete_announcement example_db ''000000000000000000000001''
         ''mrodriguez'')) ''000000000000000000000001'' = Inl NotFound"
  using example_unique example_teacher example_parse_first example_first_exists
    delete_then_get [OF example_unique example_teacher example_parse_first example_first_exists]
  by blast

subsection \<open>Stored messages are trimmed\<close>

lemma strip_eq_Nil_iff: "strip s = [] \<longleftrightarrow> blank s"
proof
  assume "strip s = []"
  then have "\<forall>x \<in> set (dropWhile is_space s). is_space x"
    by (simp add: strip_def dropWhile_eq_Nil_conv)
  then have "dropWhile is_space s = []"
    using hd_dropWhile [of is_space s] hd_in_set [of "dropWhile is_space s"] by blast
  then show "blank s"
    by (simp add: blank_def dropWhile_eq_Nil_conv list_all_iff)
next
  assume "blank s"
  then show "strip s = []"
    by (auto simp: blank_def strip_def dropWhile_eq_Nil_conv list_all_iff dest: set_dropWhileD)
qed











end
